theory Spec2Isabelle
  imports Complex_Main
begin

section \<open>Values shared by the models\<close>

text \<open>
  JavaScript numbers are modelled as \<open>real\<close>: the sources only add, multiply and
  compare them and call \<open>Math.sin\<close>, and the statements below are about which
  quantities reach which parameter, not about rounding.  Exceptions are values of the
  type \<open>error\<close>; a computation that may throw returns \<open>error + 'a\<close> with \<open>Inl\<close>
  for the exception.
\<close>

datatype error = TypeError string | Error string

section \<open>The core model \<open>Live2DModelWebGL\<close>\<close>

text \<open>
  Modelled from the spec: the Cubism 2 core model is a sealed runtime object whose code
  is not among the sources; the sources only call it.  The spec describes the layer above
  it as "float additions applied to named animation parameters", and the model follows
  that reading of the method names: a store of parameter values by index,
  \<open>addToParamFloat\<close> adds to one entry, \<open>setParamFloat\<close> overwrites one entry,
  \<open>saveParam\<close> takes a snapshot of the store and \<open>loadParam\<close> restores the
  snapshot.  \<open>update\<close> evaluates the model from the current values; the field
  \<open>evaluatedFrom\<close> remembers the values the last evaluation has read.
\<close>

record Live2DModelWebGL =
  paramValues :: "int \<Rightarrow> real"
  savedParamValues :: "int \<Rightarrow> real"
  evaluatedFrom :: "(int \<Rightarrow> real) option"

datatype core_call =
    AddToParamFloat int real
  | SetParamFloat int real
  | SaveParam
  | LoadParam
  | ModelUpdate

definition addToParamFloat :: "int \<Rightarrow> real \<Rightarrow> Live2DModelWebGL \<Rightarrow> Live2DModelWebGL" where
  "addToParamFloat i v c = c\<lparr>paramValues := (paramValues c)(i := paramValues c i + v)\<rparr>"

definition setParamFloat :: "int \<Rightarrow> real \<Rightarrow> Live2DModelWebGL \<Rightarrow> Live2DModelWebGL" where
  "setParamFloat i v c = c\<lparr>paramValues := (paramValues c)(i := v)\<rparr>"

definition saveParam :: "Live2DModelWebGL \<Rightarrow> Live2DModelWebGL" where
  "saveParam c = c\<lparr>savedParamValues := paramValues c\<rparr>"

definition loadParam :: "Live2DModelWebGL \<Rightarrow> Live2DModelWebGL" where
  "loadParam c = c\<lparr>paramValues := savedParamValues c\<rparr>"

definition modelUpdate :: "Live2DModelWebGL \<Rightarrow> Live2DModelWebGL" where
  "modelUpdate c = c\<lparr>evaluatedFrom := Some (paramValues c)\<rparr>"

fun perform :: "core_call \<Rightarrow> Live2DModelWebGL \<Rightarrow> Live2DModelWebGL" where
  "perform (AddToParamFloat i v) c = addToParamFloat i v c"
| "perform (SetParamFloat i v) c = setParamFloat i v c"
| "perform SaveParam c = saveParam c"
| "perform LoadParam c = loadParam c"
| "perform ModelUpdate c = modelUpdate c"

section \<open>\<open>Cubism2MotionManager.createMotion\<close>\<close>

text \<open>
  A motion definition of the settings file (\<open>Cubism2Spec.Motion\<close>): the fading times
  are optional.  \<open>Live2DMotion.loadMotion\<close> belongs to the core and is a parameter
  \<open>coreLoadMotion\<close> here; it may throw on malformed data.  The constant
  \<open>MOTION_FADING_DURATION\<close> is imported from a file that is not among the sources
  and is a parameter as well.
\<close>

record Cubism2Spec_Motion =
  motion_file :: string
  motion_sound :: "string option"
  fade_in :: "real option"
  fade_out :: "real option"

record ('d, 'h) Live2DMotion =
  motionData :: 'd
  fadeIn :: real
  fadeOut :: real
  onFinishHandler :: "'h option"

text \<open>
  \<open>definition.fade_in! > 0\<close>: the comparison of \<open>undefined\<close> with a number is
  false in JavaScript, so an absent value takes the else branch.
\<close>

definition positive :: "real option \<Rightarrow> bool" where
  "positive v = (case v of None \<Rightarrow> False | Some x \<Rightarrow> x > 0)"

definition Cubism2MotionManager_createMotion ::
  "real \<Rightarrow> ('d \<Rightarrow> error + ('d, 'h) Live2DMotion) \<Rightarrow> 'd \<Rightarrow> Cubism2Spec_Motion
     \<Rightarrow> error + ('d, 'h) Live2DMotion" where
  "Cubism2MotionManager_createMotion MOTION_FADING_DURATION coreLoadMotion data definition =
     (case coreLoadMotion data of
        Inl e \<Rightarrow> Inl e
      | Inr motion \<Rightarrow>
          (let motion = motion\<lparr>fadeIn :=
                 (if positive (fade_in definition) then the (fade_in definition)
                  else MOTION_FADING_DURATION)\<rparr>;
               motion = motion\<lparr>fadeOut :=
                 (if positive (fade_out definition) then the (fade_out definition)
                  else MOTION_FADING_DURATION)\<rparr>
           in Inr motion))"

section \<open>\<open>Cubism2InternalModel\<close>\<close>

text \<open>
  The collaborators of the internal model are objects whose code is not among the
  sources (the motion manager's base class, the eye-blink, physics and pose controllers,
  the focus controller of the base class).  Each is represented by what its update does
  to the parameter values of the core model; the motion manager's update also reports
  whether it has changed a parameter.  The optional fields \<open>eyeBlink\<close>,
  \<open>physics\<close> and \<open>pose\<close> are \<open>option\<close>s, \<open>None\<close> for \<open>undefined\<close>.

  Every call the internal model makes on a collaborator is appended to \<open>calls\<close>, so
  the order of the calls of one frame can be read off the state.
\<close>

datatype call =
    SuperUpdate real real
  | Emit string
  | MotionManagerUpdate real
  | Core core_call
  | EyeBlinkUpdate real
  | PhysicsUpdate real
  | PoseUpdate real

record FocusController =
  focus_x :: real
  focus_y :: real

record Cubism2InternalModel =
  coreModel :: Live2DModelWebGL
  motionManagerUpdate :: "real \<Rightarrow> (int \<Rightarrow> real) \<Rightarrow> bool \<times> (int \<Rightarrow> real)"
  eyeBlink :: "(real \<Rightarrow> (int \<Rightarrow> real) \<Rightarrow> (int \<Rightarrow> real)) option"
  physics :: "(real \<Rightarrow> (int \<Rightarrow> real) \<Rightarrow> (int \<Rightarrow> real)) option"
  pose :: "(real \<Rightarrow> (int \<Rightarrow> real) \<Rightarrow> (int \<Rightarrow> real)) option"
  focusController :: FocusController
  superUpdate :: "real \<Rightarrow> real \<Rightarrow> FocusController \<Rightarrow> FocusController"
  eyeballXParamIndex :: int
  eyeballYParamIndex :: int
  angleXParamIndex :: int
  angleYParamIndex :: int
  angleZParamIndex :: int
  bodyAngleXParamIndex :: int
  breathParamIndex :: int
  calls :: "call list"

definition invoke :: "core_call \<Rightarrow> Cubism2InternalModel \<Rightarrow> Cubism2InternalModel" where
  "invoke c m = m\<lparr>coreModel := perform c (coreModel m), calls := calls m @ [Core c]\<rparr>"

definition updateFocus :: "Cubism2InternalModel \<Rightarrow> Cubism2InternalModel" where
  "updateFocus m =
     (let x = focus_x (focusController m);
          y = focus_y (focusController m);
          m = invoke (AddToParamFloat (eyeballXParamIndex m) x) m;
          m = invoke (AddToParamFloat (eyeballYParamIndex m) y) m;
          m = invoke (AddToParamFloat (angleXParamIndex m) (x * 30)) m;
          m = invoke (AddToParamFloat (angleYParamIndex m) (y * 30)) m;
          m = invoke (AddToParamFloat (angleZParamIndex m) (x * y * - 30)) m;
          m = invoke (AddToParamFloat (bodyAngleXParamIndex m) (x * 10)) m
      in m)"

definition updateNaturalMovements :: "real \<Rightarrow> real \<Rightarrow> Cubism2InternalModel \<Rightarrow> Cubism2InternalModel" where
  "updateNaturalMovements dt now m =
     (let t = (now / 1000) * 2 * pi;
          m = invoke (AddToParamFloat (angleXParamIndex m) (15 * sin (t / 6.5345) * 0.5)) m;
          m = invoke (AddToParamFloat (angleYParamIndex m) (8 * sin (t / 3.5345) * 0.5)) m;
          m = invoke (AddToParamFloat (angleZParamIndex m) (10 * sin (t / 5.5345) * 0.5)) m;
          m = invoke (AddToParamFloat (bodyAngleXParamIndex m) (4 * sin (t / 15.5345) * 0.5)) m;
          m = invoke (SetParamFloat (breathParamIndex m) (0.5 + 0.5 * sin (t / 3.2345))) m
      in m)"

text \<open>
  The pieces of \<open>update\<close>.  \<open>super.update(dt, now)\<close> is the base class's part of the
  frame; of the state modelled here it can only touch the focus controller.
  \<open>this.emit\<close> notifies listeners, which are not part of the sources.
  \<open>optionalUpdate\<close> is the optional call \<open>this.x?.update(arg)\<close>: nothing happens
  when the field is undefined.
\<close>

definition baseUpdate :: "real \<Rightarrow> real \<Rightarrow> Cubism2InternalModel \<Rightarrow> Cubism2InternalModel" where
  "baseUpdate dt now m =
     m\<lparr>focusController := superUpdate m dt now (focusController m),
       calls := calls m @ [SuperUpdate dt now]\<rparr>"

definition emit :: "string \<Rightarrow> Cubism2InternalModel \<Rightarrow> Cubism2InternalModel" where
  "emit e m = m\<lparr>calls := calls m @ [Emit e]\<rparr>"

definition setParams :: "(int \<Rightarrow> real) \<Rightarrow> Cubism2InternalModel \<Rightarrow> Cubism2InternalModel" where
  "setParams p m = m\<lparr>coreModel := (coreModel m)\<lparr>paramValues := p\<rparr>\<rparr>"

definition motionManager_update :: "real \<Rightarrow> Cubism2InternalModel \<Rightarrow> bool \<times> Cubism2InternalModel" where
  "motionManager_update now m =
     (let r = motionManagerUpdate m now (paramValues (coreModel m))
      in (fst r, (setParams (snd r) m)\<lparr>calls := calls m @ [MotionManagerUpdate now]\<rparr>))"

definition optionalUpdate ::
  "call \<Rightarrow> (real \<Rightarrow> (int \<Rightarrow> real) \<Rightarrow> (int \<Rightarrow> real)) option \<Rightarrow> real
     \<Rightarrow> Cubism2InternalModel \<Rightarrow> Cubism2InternalModel" where
  "optionalUpdate c obj arg m =
     (case obj of
        None \<Rightarrow> m
      | Some f \<Rightarrow> (setParams (f arg (paramValues (coreModel m))) m)\<lparr>calls := calls m @ [c]\<rparr>)"

definition update :: "real \<Rightarrow> real \<Rightarrow> Cubism2InternalModel \<Rightarrow> Cubism2InternalModel" where
  "update dt now m =
     (let m = baseUpdate dt now m;
          m = emit ''beforeMotionUpdate'' m;
          r = motionManager_update now m;
          motionUpdated = fst r;
          m = snd r;
          m = emit ''afterMotionUpdate'' m;
          m = invoke SaveParam m;
          m = (if \<not> motionUpdated then optionalUpdate (EyeBlinkUpdate dt) (eyeBlink m) dt m else m);
          m = updateFocus m;
          m = updateNaturalMovements dt now m;
          m = optionalUpdate (PhysicsUpdate now) (physics m) now m;
          m = optionalUpdate (PoseUpdate dt) (pose m) dt m;
          m = emit ''beforeModelUpdate'' m;
          m = invoke ModelUpdate m;
          m = invoke LoadParam m
      in m)"

text \<open>The calls \<open>updateFocus\<close> and \<open>updateNaturalMovements\<close> make, as lists.\<close>

definition focusCalls :: "Cubism2InternalModel \<Rightarrow> call list" where
  "focusCalls m =
     (let x = focus_x (focusController m); y = focus_y (focusController m)
      in [Core (AddToParamFloat (eyeballXParamIndex m) x),
          Core (AddToParamFloat (eyeballYParamIndex m) y),
          Core (AddToParamFloat (angleXParamIndex m) (x * 30)),
          Core (AddToParamFloat (angleYParamIndex m) (y * 30)),
          Core (AddToParamFloat (angleZParamIndex m) (x * y * - 30)),
          Core (AddToParamFloat (bodyAngleXParamIndex m) (x * 10))])"

definition swayCalls :: "real \<Rightarrow> Cubism2InternalModel \<Rightarrow> call list" where
  "swayCalls now m =
     (let t = (now / 1000) * 2 * pi
      in [Core (AddToParamFloat (angleXParamIndex m) (15 * sin (t / 6.5345) * 0.5)),
          Core (AddToParamFloat (angleYParamIndex m) (8 * sin (t / 3.5345) * 0.5)),
          Core (AddToParamFloat (angleZParamIndex m) (10 * sin (t / 5.5345) * 0.5)),
          Core (AddToParamFloat (bodyAngleXParamIndex m) (4 * sin (t / 15.5345) * 0.5)),
          Core (SetParamFloat (breathParamIndex m) (0.5 + 0.5 * sin (t / 3.2345)))])"

text \<open>
  The calls of one frame in the order of \<open>update\<close>, with the optional parts written
  out.  The focus contributions are computed from the focus controller as the base class's
  update has left it.
\<close>

definition frameCalls :: "real \<Rightarrow> real \<Rightarrow> Cubism2InternalModel \<Rightarrow> call list" where
  "frameCalls dt now m =
     [SuperUpdate dt now, Emit ''beforeMotionUpdate'', MotionManagerUpdate now,
      Emit ''afterMotionUpdate'', Core SaveParam]
     @ (if \<not> fst (motionManagerUpdate m now (paramValues (coreModel m))) \<and> eyeBlink m \<noteq> None
        then [EyeBlinkUpdate dt] else [])
     @ focusCalls (baseUpdate dt now m)
     @ swayCalls now m
     @ (if physics m \<noteq> None then [PhysicsUpdate now] else [])
     @ (if pose m \<noteq> None then [PoseUpdate dt] else [])
     @ [Emit ''beforeModelUpdate'', Core ModelUpdate, Core LoadParam]"

text \<open>A model used to evaluate the definitions: seven parameters, all zero.\<close>

definition exampleModel :: Cubism2InternalModel where
  "exampleModel =
     \<lparr>coreModel = \<lparr>paramValues = (\<lambda>_. 0), savedParamValues = (\<lambda>_. 0), evaluatedFrom = None\<rparr>,
      motionManagerUpdate = (\<lambda>now p. (False, p)),
      eyeBlink = Some (\<lambda>dt p. p),
      physics = None,
      pose = None,
      focusController = \<lparr>focus_x = 1 / 2, focus_y = - 1\<rparr>,
      superUpdate = (\<lambda>dt now f. f),
      eyeballXParamIndex = 0,
      eyeballYParamIndex = 1,
      angleXParamIndex = 2,
      angleYParamIndex = 3,
      angleZParamIndex = 4,
      bodyAngleXParamIndex = 5,
      breathParamIndex = 6,
      calls = []\<rparr>"

subsection \<open>\<open>getDrawableVertices\<close>\<close>

text \<open>
  Typed arrays are objects with identity, so they live in a store: an address holds the
  numbers of one \<open>Float32Array\<close>, and \<open>nextFree\<close> is the next address an allocation
  returns.  \<open>slice()\<close> without arguments allocates a new array with the same numbers.
  The core's \<open>getDrawDataIndex\<close> and \<open>getTransformedPoints\<close> are parameters:
  the first returns \<open>-1\<close> for an unknown id, the second the address of the core's own
  buffer of the drawable, or nothing for an index the core does not know, on which the
  call of \<open>slice\<close> throws.
\<close>

record store =
  cells :: "nat \<Rightarrow> real list option"
  nextFree :: nat

definition slice :: "nat \<Rightarrow> store \<Rightarrow> error + (nat \<times> store)" where
  "slice a h =
     (case cells h a of
        None \<Rightarrow> Inl (TypeError ''Cannot read properties of undefined'')
      | Some xs \<Rightarrow> Inr (nextFree h, h\<lparr>cells := (cells h)(nextFree h := Some xs),
                                    nextFree := Suc (nextFree h)\<rparr>))"

datatype drawIndex = Str string | Num int

definition getDrawableVertices ::
  "(string \<Rightarrow> int) \<Rightarrow> (int \<Rightarrow> nat option) \<Rightarrow> drawIndex \<Rightarrow> store \<Rightarrow> error + (nat \<times> store)" where
  "getDrawableVertices getDrawDataIndex getTransformedPoints drawIndex h =
     (case drawIndex of
        Str s \<Rightarrow>
          (let i = getDrawDataIndex s
           in if i = - 1 then Inl (TypeError (''Unable to find drawable ID: '' @ ''-1''))
              else (case getTransformedPoints i of
                      None \<Rightarrow> Inl (TypeError ''Cannot read properties of undefined'')
                    | Some a \<Rightarrow> slice a h))
      | Num i \<Rightarrow>
          (case getTransformedPoints i of
             None \<Rightarrow> Inl (TypeError ''Cannot read properties of undefined'')
           | Some a \<Rightarrow> slice a h))"

definition wellFormed :: "store \<Rightarrow> bool" where
  "wellFormed h = (\<forall>a. cells h a \<noteq> None \<longrightarrow> a < nextFree h)"

section \<open>\<open>Cubism2MotionManager\<close> and its queue\<close>











section \<open>The factory: \<open>jsonToSettings\<close>\<close>

text \<open>
  The source of a factory context is any JavaScript value.  The middleware tells apart an
  instance of \<open>ModelSettings\<close>, any other value whose \<open>typeof\<close> is
  \<open>object\<close>, and the rest (\<open>JsString\<close> for a URL that no earlier middleware has
  resolved, \<open>JsOther\<close> for numbers, \<open>undefined\<close> and so on).  A runtime is
  represented by its \<open>createModelSettings\<close>, which returns settings, returns
  \<open>undefined\<close>, or throws.  \<open>emitted\<close> lists the events emitted on
  \<open>context.live2dModel\<close>, and \<open>listeners\<close> is what the listeners of an event
  do when it is emitted with an argument: return, or throw an error, which \<open>emit\<close>
  passes on to its caller.  The middleware is an async function: its result is a promise,
  \<open>Inl\<close> when rejected, so an error thrown in its body rejects it; \<open>next\<close> is
  the rest of the chain.
\<close>

datatype ('j, 's) source = JsString string | SettingsInstance 's | JsObject 'j | JsOther

record ('j, 's) Live2DRuntime =
  version :: int
  createModelSettings :: "'j \<Rightarrow> error + 's option"

record ('j, 's) Live2DFactoryContext =
  source :: "('j, 's) source"
  settings :: "'s option"
  emitted :: "(string \<times> 's) list"
  listeners :: "string \<Rightarrow> 's \<Rightarrow> error option"

fun firstSettings :: "('j, 's) Live2DRuntime list \<Rightarrow> 'j \<Rightarrow> error + 's option" where
  "firstSettings [] json = Inr None"
| "firstSettings (runtime # runtimes) json =
     (case createModelSettings runtime json of
        Inl e \<Rightarrow> Inl e
      | Inr (Some s) \<Rightarrow> Inr (Some s)
      | Inr None \<Rightarrow> firstSettings runtimes json)"

definition live2dModel_emit ::
  "string \<Rightarrow> 's \<Rightarrow> ('j, 's) Live2DFactoryContext \<Rightarrow> error + ('j, 's) Live2DFactoryContext" where
  "live2dModel_emit event arg context =
     (case listeners context event arg of
        Some e \<Rightarrow> Inl e
      | None \<Rightarrow> Inr (context\<lparr>emitted := emitted context @ [(event, arg)]\<rparr>))"

definition jsonToSettings ::
  "('j, 's) Live2DRuntime list \<Rightarrow> ('j, 's) Live2DFactoryContext
     \<Rightarrow> (('j, 's) Live2DFactoryContext \<Rightarrow> error + 'r) \<Rightarrow> error + 'r" where
  "jsonToSettings runtimes context next =
     (case source context of
        SettingsInstance s \<Rightarrow> next (context\<lparr>settings := Some s\<rparr>)
      | JsObject json \<Rightarrow>
          (case firstSettings runtimes json of
             Inl e \<Rightarrow> Inl e
           | Inr (Some s) \<Rightarrow>
               (case live2dModel_emit ''settingsLoaded'' s (context\<lparr>settings := Some s\<rparr>) of
                  Inl e \<Rightarrow> Inl e
                | Inr context \<Rightarrow> next context)
           | Inr None \<Rightarrow> Inl (TypeError ''Unknown settings format.''))
      | _ \<Rightarrow> Inl (TypeError ''Unknown settings format.''))"

text \<open>
  Two runtimes in the order of \<open>Live2DFactory.runtimes\<close> (higher version first);
  the first throws on the object \<open>0\<close>, which the second accepts.  In the example
  context a listener throws on the settings of the first runtime.
\<close>

definition exampleRuntimes :: "(nat, string) Live2DRuntime list" where
  "exampleRuntimes =
     [\<lparr>version = 4, createModelSettings =
         (\<lambda>json. if json = 4 then Inr (Some ''cubism4 settings'')
                 else if json = 0 then Inl (TypeError ''Cannot read properties of null'')
                 else Inr None)\<rparr>,
      \<lparr>version = 2, createModelSettings =
         (\<lambda>json. if json = 2 \<or> json = 0 then Inr (Some ''cubism2 settings'') else Inr None)\<rparr>]"

definition exampleContext :: "(nat, string) source \<Rightarrow> (nat, string) Live2DFactoryContext" where
  "exampleContext src =
     \<lparr>source = src, settings = None, emitted = [],
      listeners = (\<lambda>event s. if s = ''cubism4 settings'' then Some (Error ''listener failed'') else None)\<rparr>"

section \<open>The factory: \<open>setupLive2DModel\<close>\<close>

text \<open>
  \<open>Live2DFactory.setupLive2DModel\<close> is an async function; its promises settle and its
  callbacks run in turns of the event loop, so it is modelled by its state between turns.
  The state holds the events emitted on the model so far, each with who has emitted it
  (the function itself, or other code: the middlewares, listeners); whether the promises
  \<open>textureLoaded\<close> and \<open>modelLoaded\<close> are resolved, which the listeners
  registered with \<open>once\<close> do at the first event of that name; whether the callback of
  \<open>Promise.all([textureLoaded, modelLoaded]).then(...)\<close> has run; the state of the
  promise of \<open>runMiddlewares\<close>; and the \<open>await\<close> at which the function stands.
  \<open>runMiddlewares\<close> and the event emitter are not among the sources: the chain is
  other code that emits events and settles at some time.
\<close>

datatype chain = Running | Succeeded | Failed error

datatype position = AwaitMiddlewares | AwaitReady | Returned | Rejected error

datatype emitter = Factory | Others

record setup_state =
  emittedEvents :: "(emitter \<times> string) list"
  textureLoaded :: bool
  modelLoaded :: bool
  readyEventEmitted :: bool
  middlewares :: chain
  pc :: position

text \<open>
  \<open>emit\<close> calls the listeners at once, so an event of the name resolves its promise
  in the same turn.  \<open>setupLive2DModel_start\<close> is the state when the function has
  registered the listeners, started the middlewares and reached its first \<open>await\<close>.
\<close>

definition emitOn :: "emitter \<Rightarrow> string \<Rightarrow> setup_state \<Rightarrow> setup_state" where
  "emitOn who e st =
     st\<lparr>emittedEvents := emittedEvents st @ [(who, e)],
        textureLoaded := textureLoaded st \<or> e = ''textureLoaded'',
        modelLoaded := modelLoaded st \<or> e = ''modelLoaded''\<rparr>"

definition setupLive2DModel_start :: setup_state where
  "setupLive2DModel_start =
     \<lparr>emittedEvents = [], textureLoaded = False, modelLoaded = False,
      readyEventEmitted = False, middlewares = Running, pc = AwaitMiddlewares\<rparr>"

text \<open>
  A turn is one of: other code emits an event; the promise of the middlewares settles;
  the callback that emits \<open>ready\<close> runs, which it can once both promises are
  resolved; the function resumes after the \<open>await\<close> at which it stands, when the
  awaited promise has settled.  A turn that cannot happen in a state leaves it as it is, so
  every list of turns is a run, in whatever order the event loop takes them.
\<close>

datatype turn =
    OthersEmit string
  | MiddlewaresSettle "error option"
  | ReadyCallback
  | Resume

fun turn_step :: "setup_state \<Rightarrow> turn \<Rightarrow> setup_state" where
  "turn_step st (OthersEmit e) = emitOn Others e st"
| "turn_step st (MiddlewaresSettle r) =
     (if middlewares st = Running
      then st\<lparr>middlewares := (case r of None \<Rightarrow> Succeeded | Some e \<Rightarrow> Failed e)\<rparr>
      else st)"
| "turn_step st ReadyCallback =
     (if textureLoaded st \<and> modelLoaded st \<and> \<not> readyEventEmitted st
      then (emitOn Factory ''ready'' st)\<lparr>readyEventEmitted := True\<rparr>
      else st)"
| "turn_step st Resume =
     (case pc st of
        AwaitMiddlewares \<Rightarrow>
          (case middlewares st of
             Running \<Rightarrow> st
           | Succeeded \<Rightarrow> st\<lparr>pc := AwaitReady\<rparr>
           | Failed e \<Rightarrow> st\<lparr>pc := Rejected e\<rparr>)
      | AwaitReady \<Rightarrow>
          (if readyEventEmitted st then (emitOn Factory ''load'' st)\<lparr>pc := Returned\<rparr> else st)
      | Returned \<Rightarrow> st
      | Rejected e \<Rightarrow> st)"

text \<open>
  The order of the events the function emits itself, and the facts that hold between
  turns.
\<close>

definition names :: "(emitter \<times> string) list \<Rightarrow> string set" where
  "names evs = snd ` set evs"

definition inOrder :: "(emitter \<times> string) list \<Rightarrow> bool" where
  "inOrder evs =
     (\<forall>pre post. (evs = pre @ (Factory, ''ready'') # post \<longrightarrow>
                     ''modelLoaded'' \<in> names pre \<and> ''textureLoaded'' \<in> names pre)
                \<and> (evs = pre @ (Factory, ''load'') # post \<longrightarrow> (Factory, ''ready'') \<in> set pre))"

definition consistent :: "setup_state \<Rightarrow> bool" where
  "consistent st =
     (inOrder (emittedEvents st)
      \<and> (textureLoaded st \<longrightarrow> ''textureLoaded'' \<in> names (emittedEvents st))
      \<and> (modelLoaded st \<longrightarrow> ''modelLoaded'' \<in> names (emittedEvents st))
      \<and> (readyEventEmitted st \<longrightarrow> (Factory, ''ready'') \<in> set (emittedEvents st))
      \<and> (pc st = Returned \<longrightarrow> (Factory, ''load'') \<in> set (emittedEvents st)))"

section \<open>The factory: \<open>loadMotion\<close>\<close>

text \<open>
  A motion manager is given by what \<open>loadMotion\<close> reads of it: its tag, its
  definitions by group (an entry of a group may be empty), and the methods
  \<open>getMotionFile\<close> and \<open>createMotion\<close>, which may throw.  Managers are objects
  with identity and are numbered; \<open>managers\<close> gives the object of a number.

  \<open>motionTasksMap\<close> maps a manager to its record of task groups, a group name to
  its array of tasks, and an index to the task there.  A task is the promise
  \<open>Live2DLoader.load(...).then(...).catch(...)\<close>; tasks are numbered in the order in
  which they are created and kept in \<open>started\<close>, each with the variables its
  callbacks have captured and with its state.  \<open>Live2DLoader\<close> and \<open>logger\<close>
  are not among the sources: the outcome of a load is an input of \<open>settleLoad\<close>,
  and \<open>logger.warn\<close> appends the tag to \<open>warnings\<close> and returns
  \<open>undefined\<close>.

  The record of task groups is created as \<open>{}\<close>, so \<open>tasks[group]\<close> also
  finds what every object inherits: for a group named like such a property
  (\<open>toString\<close>, \<open>constructor\<close>, \<open>__proto__\<close>) the lookup yields an object
  shared by all records, no array is created, and the task is stored on that shared
  object.  Which names are inherited is the engine's and is the parameter
  \<open>inherits\<close>: it gives the shared object of a name, \<open>ObjectPrototype\<close> for
  \<open>__proto__\<close>.  \<open>sharedTasks\<close> holds the tasks stored on shared objects; a
  task stored on \<open>ObjectPrototype\<close> is found at its index in every array and in
  every shared object that has no entry of its own there.  Only these lookups of tasks
  are modelled for inherited names: \<open>definitionAt\<close> is the value of
  \<open>motionManager.definitions[group]?.[index]\<close> and is taken not to depend on the
  tasks stored, and a task stored on \<open>ObjectPrototype\<close> is not itself looked up as
  a task group.
\<close>

record ('def, 'data, 'motion) MotionManager =
  tag :: string
  definitions :: "string \<Rightarrow> 'def option list option"
  getMotionFile :: "'def \<Rightarrow> error + string"
  createMotion :: "'data \<Rightarrow> 'def \<Rightarrow> error + 'motion"


datatype 'motion settled = Pending | Settled "error + 'motion option"

record ('def, 'motion) task =
  t_manager :: nat
  t_group :: string
  t_index :: int
  t_definition :: 'def
  t_path :: string
  t_state :: "'motion settled"

datatype shared = ObjectPrototype | InheritedObject string

record ('def, 'motion) factory =
  motionTasksMap :: "nat \<Rightarrow> (string \<Rightarrow> (int \<Rightarrow> nat option) option) option"
  sharedTasks :: "shared \<Rightarrow> int \<Rightarrow> nat option"
  started :: "('def, 'motion) task list"
  destroyListeners :: "nat list"
  warnings :: "string list"


definition tasksOf :: "('def, 'motion) factory \<Rightarrow> nat \<Rightarrow> string \<Rightarrow> (int \<Rightarrow> nat option) option" where
  "tasksOf fs m = (case motionTasksMap fs m of None \<Rightarrow> (\<lambda>g. None) | Some tasks \<Rightarrow> tasks)"

definition taskGroupOf :: "('def, 'motion) factory \<Rightarrow> nat \<Rightarrow> string \<Rightarrow> int \<Rightarrow> nat option" where
  "taskGroupOf fs m grp = (case tasksOf fs m grp of None \<Rightarrow> (\<lambda>i. None) | Some taskGroup \<Rightarrow> taskGroup)"

definition taskAt :: "('def, 'motion) factory \<Rightarrow> nat \<Rightarrow> string \<Rightarrow> int \<Rightarrow> nat option" where
  "taskAt fs m grp index = taskGroupOf fs m grp index"

definition registerDestroy :: "nat \<Rightarrow> ('def, 'motion) factory \<Rightarrow> ('def, 'motion) factory" where
  "registerDestroy m fs =
     (if m \<in> set (destroyListeners fs) then fs
      else fs\<lparr>destroyListeners := destroyListeners fs @ [m]\<rparr>)"

definition ensureTasks :: "nat \<Rightarrow> ('def, 'motion) factory \<Rightarrow> ('def, 'motion) factory" where
  "ensureTasks m fs =
     (case motionTasksMap fs m of
        None \<Rightarrow> fs\<lparr>motionTasksMap := (motionTasksMap fs)(m := Some (\<lambda>g. None))\<rparr>
      | Some tasks \<Rightarrow> fs)"

text \<open>
  \<open>tasks[group]\<close> is the record's own array, or else the shared object inherited
  under that name, or else \<open>undefined\<close>; in the last case the source creates an
  array and stores it in the record.
\<close>

datatype taskGroup = OwnArray | Shared shared

definition lookupTaskGroup ::
  "(string \<Rightarrow> shared option) \<Rightarrow> ('def, 'motion) factory \<Rightarrow> nat \<Rightarrow> string \<Rightarrow> taskGroup option" where
  "lookupTaskGroup inherits fs m grp =
     (case tasksOf fs m grp of
        Some array \<Rightarrow> Some OwnArray
      | None \<Rightarrow> (case inherits grp of Some sh \<Rightarrow> Some (Shared sh) | None \<Rightarrow> None))"

definition createTaskGroup :: "nat \<Rightarrow> string \<Rightarrow> ('def, 'motion) factory \<Rightarrow> ('def, 'motion) factory" where
  "createTaskGroup m grp fs =
     fs\<lparr>motionTasksMap := (motionTasksMap fs)(m := Some ((tasksOf fs m)(grp := Some (\<lambda>i. None))))\<rparr>"

definition ensureTaskGroup ::
  "(string \<Rightarrow> shared option) \<Rightarrow> nat \<Rightarrow> string \<Rightarrow> ('def, 'motion) factory
     \<Rightarrow> taskGroup \<times> ('def, 'motion) factory" where
  "ensureTaskGroup inherits m grp fs =
     (case lookupTaskGroup inherits fs m grp of
        Some taskGroup \<Rightarrow> (taskGroup, fs)
      | None \<Rightarrow> (OwnArray, createTaskGroup m grp fs))"



definition putOwn :: "nat \<Rightarrow> string \<Rightarrow> int \<Rightarrow> nat option \<Rightarrow> ('def, 'motion) factory \<Rightarrow> ('def, 'motion) factory" where
  "putOwn m grp index v fs =
     fs\<lparr>motionTasksMap := (motionTasksMap fs)(m :=
          Some ((tasksOf fs m)(grp := Some ((taskGroupOf fs m grp)(index := v)))))\<rparr>"

definition putShared :: "shared \<Rightarrow> int \<Rightarrow> nat option \<Rightarrow> ('def, 'motion) factory \<Rightarrow> ('def, 'motion) factory" where
  "putShared sh index v fs =
     fs\<lparr>sharedTasks := (sharedTasks fs)(sh := (sharedTasks fs sh)(index := v))\<rparr>"

definition writeTask ::
  "nat \<Rightarrow> string \<Rightarrow> taskGroup \<Rightarrow> int \<Rightarrow> nat \<Rightarrow> ('def, 'motion) factory \<Rightarrow> ('def, 'motion) factory" where
  "writeTask m grp taskGroup index t fs =
     (case taskGroup of
        OwnArray \<Rightarrow> putOwn m grp index (Some t) fs
      | Shared sh \<Rightarrow> putShared sh index (Some t) fs)"

definition deleteTask ::
  "(string \<Rightarrow> shared option) \<Rightarrow> nat \<Rightarrow> string \<Rightarrow> int \<Rightarrow> ('def, 'motion) factory
     \<Rightarrow> ('def, 'motion) factory" where
  "deleteTask inherits m grp index fs =
     (case motionTasksMap fs m of
        None \<Rightarrow> fs
      | Some tasks \<Rightarrow>
          (case lookupTaskGroup inherits fs m grp of
             None \<Rightarrow> fs
           | Some OwnArray \<Rightarrow> putOwn m grp index None fs
           | Some (Shared sh) \<Rightarrow> putShared sh index None fs))"

definition warn :: "string \<Rightarrow> ('def, 'motion) factory \<Rightarrow> ('def, 'motion) factory" where
  "warn tg fs = fs\<lparr>warnings := warnings fs @ [tg]\<rparr>"


definition thenCallback ::
  "(string \<Rightarrow> shared option) \<Rightarrow> (nat \<Rightarrow> ('def, 'data, 'motion) MotionManager) \<Rightarrow> ('def, 'motion) task \<Rightarrow> 'data
     \<Rightarrow> ('def, 'motion) factory \<Rightarrow> (error + 'motion option) \<times> ('def, 'motion) factory" where
  "thenCallback inherits managers tk data fs =
     (let fs = deleteTask inherits (t_manager tk) (t_group tk) (t_index tk) fs
      in (case createMotion (managers (t_manager tk)) data (t_definition tk) of
            Inl e \<Rightarrow> (Inl e, fs)
          | Inr motion \<Rightarrow> (Inr (Some motion), fs)))"

definition catchCallback ::
  "(nat \<Rightarrow> ('def, 'data, 'motion) MotionManager) \<Rightarrow> ('def, 'motion) task \<Rightarrow> error
     \<Rightarrow> ('def, 'motion) factory \<Rightarrow> (error + 'motion option) \<times> ('def, 'motion) factory" where
  "catchCallback managers tk e fs = (Inr None, warn (tag (managers (t_manager tk))) fs)"

text \<open>
  \<open>p.then(f)\<close> and \<open>p.catch(g)\<close> on a settled promise, with the state the
  callbacks change: \<open>then\<close> passes a rejection on, \<open>catch\<close> passes a value on,
  and a callback that throws rejects the new promise.
\<close>

definition thenP :: "('a \<Rightarrow> 's \<Rightarrow> (error + 'b) \<times> 's) \<Rightarrow> (error + 'a) \<times> 's \<Rightarrow> (error + 'b) \<times> 's" where
  "thenP onFulfilled p = (case fst p of Inl e \<Rightarrow> (Inl e, snd p) | Inr v \<Rightarrow> onFulfilled v (snd p))"

definition catchP :: "(error \<Rightarrow> 's \<Rightarrow> (error + 'b) \<times> 's) \<Rightarrow> (error + 'b) \<times> 's \<Rightarrow> (error + 'b) \<times> 's" where
  "catchP onRejected p = (case fst p of Inl e \<Rightarrow> onRejected e (snd p) | Inr v \<Rightarrow> (Inr v, snd p))"


definition releaseTasks :: "nat \<Rightarrow> ('def, 'motion) factory \<Rightarrow> ('def, 'motion) factory" where
  "releaseTasks target fs = fs\<lparr>motionTasksMap := (motionTasksMap fs)(target := None)\<rparr>"



definition newFactory :: "('def, 'motion) factory" where
  "newFactory = \<lparr>motionTasksMap = (\<lambda>m. None), sharedTasks = (\<lambda>sh i. None), started = [],
                 destroyListeners = [], warnings = []\<rparr>"














section \<open>Facts about the core model\<close>

lemma invoke_fields [simp]:
  "motionManagerUpdate (invoke c m) = motionManagerUpdate m"
  "eyeBlink (invoke c m) = eyeBlink m"
  "physics (invoke c m) = physics m"
  "pose (invoke c m) = pose m"
  "focusController (invoke c m) = focusController m"
  "superUpdate (invoke c m) = superUpdate m"
  "eyeballXParamIndex (invoke c m) = eyeballXParamIndex m"
  "eyeballYParamIndex (invoke c m) = eyeballYParamIndex m"
  "angleXParamIndex (invoke c m) = angleXParamIndex m"
  "angleYParamIndex (invoke c m) = angleYParamIndex m"
  "angleZParamIndex (invoke c m) = angleZParamIndex m"
  "bodyAngleXParamIndex (invoke c m) = bodyAngleXParamIndex m"
  "breathParamIndex (invoke c m) = breathParamIndex m"
  "calls (invoke c m) = calls m @ [Core c]"
  "coreModel (invoke c m) = perform c (coreModel m)"
  by (simp_all add: invoke_def)

lemma paramValues_add [simp]:
  "paramValues (addToParamFloat i v c) j = (if j = i then paramValues c i + v else paramValues c j)"
  by (simp add: addToParamFloat_def)

lemma paramValues_set [simp]:
  "paramValues (setParamFloat i v c) j = (if j = i then v else paramValues c j)"
  by (simp add: setParamFloat_def)

lemma updateFocus_paramValues:
  "paramValues (coreModel (updateFocus m)) j =
     paramValues (coreModel m) j
     + (if j = eyeballXParamIndex m then focus_x (focusController m) else 0)
     + (if j = eyeballYParamIndex m then focus_y (focusController m) else 0)
     + (if j = angleXParamIndex m then focus_x (focusController m) * 30 else 0)
     + (if j = angleYParamIndex m then focus_y (focusController m) * 30 else 0)
     + (if j = angleZParamIndex m then focus_x (focusController m) * focus_y (focusController m) * - 30 else 0)
     + (if j = bodyAngleXParamIndex m then focus_x (focusController m) * 10 else 0)"
  by (simp add: updateFocus_def Let_def)

lemma distinct6:
  assumes "distinct [a, b, c, d, e, f :: int]"
  shows "a \<noteq> b" "a \<noteq> c" "a \<noteq> d" "a \<noteq> e" "a \<noteq> f" "b \<noteq> c" "b \<noteq> d" "b \<noteq> e" "b \<noteq> f"
        "c \<noteq> d" "c \<noteq> e" "c \<noteq> f" "d \<noteq> e" "d \<noteq> f" "e \<noteq> f"
        "b \<noteq> a" "c \<noteq> a" "d \<noteq> a" "e \<noteq> a" "f \<noteq> a" "c \<noteq> b" "d \<noteq> b" "e \<noteq> b" "f \<noteq> b"
        "d \<noteq> c" "e \<noteq> c" "f \<noteq> c" "e \<noteq> d" "f \<noteq> d" "f \<noteq> e"
  using assms by auto

lemma updateNaturalMovements_paramValues:
  "paramValues (coreModel (updateNaturalMovements dt now m)) j =
     (if j = breathParamIndex m then 0.5 + 0.5 * sin (((now / 1000) * 2 * pi) / 3.2345)
      else paramValues (coreModel m) j
        + (if j = angleXParamIndex m then 15 * sin (((now / 1000) * 2 * pi) / 6.5345) * 0.5 else 0)
        + (if j = angleYParamIndex m then 8 * sin (((now / 1000) * 2 * pi) / 3.5345) * 0.5 else 0)
        + (if j = angleZParamIndex m then 10 * sin (((now / 1000) * 2 * pi) / 5.5345) * 0.5 else 0)
        + (if j = bodyAngleXParamIndex m then 4 * sin (((now / 1000) * 2 * pi) / 15.5345) * 0.5 else 0))"
  by (simp add: updateNaturalMovements_def Let_def)

lemma breath_range: "0 \<le> 0.5 + 0.5 * sin (x::real) \<and> 0.5 + 0.5 * sin x \<le> 1"
proof -
  have "- 1 \<le> sin x" "sin x \<le> 1" by simp_all
  then show ?thesis by linarith
qed

section \<open>Facts about one frame of the internal model\<close>

lemma updateFocus_calls: "calls (updateFocus m) = calls m @ focusCalls m"
  by (simp add: updateFocus_def focusCalls_def Let_def)

lemma updateNaturalMovements_calls:
  "calls (updateNaturalMovements dt now m) = calls m @ swayCalls now m"
  by (simp add: updateNaturalMovements_def swayCalls_def Let_def)

lemma updateFocus_fields [simp]:
  "physics (updateFocus m) = physics m"
  "pose (updateFocus m) = pose m"
  "angleXParamIndex (updateFocus m) = angleXParamIndex m"
  "angleYParamIndex (updateFocus m) = angleYParamIndex m"
  "angleZParamIndex (updateFocus m) = angleZParamIndex m"
  "bodyAngleXParamIndex (updateFocus m) = bodyAngleXParamIndex m"
  "breathParamIndex (updateFocus m) = breathParamIndex m"
  "eyeballXParamIndex (updateFocus m) = eyeballXParamIndex m"
  "eyeballYParamIndex (updateFocus m) = eyeballYParamIndex m"
  "focusController (updateFocus m) = focusController m"
  "savedParamValues (coreModel (updateFocus m)) = savedParamValues (coreModel m)"
  by (simp_all add: updateFocus_def Let_def addToParamFloat_def)

lemma updateNaturalMovements_fields [simp]:
  "physics (updateNaturalMovements dt now m) = physics m"
  "pose (updateNaturalMovements dt now m) = pose m"
  "savedParamValues (coreModel (updateNaturalMovements dt now m)) = savedParamValues (coreModel m)"
  by (simp_all add: updateNaturalMovements_def Let_def addToParamFloat_def setParamFloat_def)

lemma baseUpdate_fields [simp]:
  "coreModel (baseUpdate dt now m) = coreModel m"
  "motionManagerUpdate (baseUpdate dt now m) = motionManagerUpdate m"
  "eyeBlink (baseUpdate dt now m) = eyeBlink m"
  "physics (baseUpdate dt now m) = physics m"
  "pose (baseUpdate dt now m) = pose m"
  "eyeballXParamIndex (baseUpdate dt now m) = eyeballXParamIndex m"
  "eyeballYParamIndex (baseUpdate dt now m) = eyeballYParamIndex m"
  "angleXParamIndex (baseUpdate dt now m) = angleXParamIndex m"
  "angleYParamIndex (baseUpdate dt now m) = angleYParamIndex m"
  "angleZParamIndex (baseUpdate dt now m) = angleZParamIndex m"
  "bodyAngleXParamIndex (baseUpdate dt now m) = bodyAngleXParamIndex m"
  "breathParamIndex (baseUpdate dt now m) = breathParamIndex m"
  "calls (baseUpdate dt now m) = calls m @ [SuperUpdate dt now]"
  by (simp_all add: baseUpdate_def)

lemma emit_fields [simp]:
  "coreModel (emit e m) = coreModel m"
  "motionManagerUpdate (emit e m) = motionManagerUpdate m"
  "eyeBlink (emit e m) = eyeBlink m"
  "physics (emit e m) = physics m"
  "pose (emit e m) = pose m"
  "focusController (emit e m) = focusController m"
  "eyeballXParamIndex (emit e m) = eyeballXParamIndex m"
  "eyeballYParamIndex (emit e m) = eyeballYParamIndex m"
  "angleXParamIndex (emit e m) = angleXParamIndex m"
  "angleYParamIndex (emit e m) = angleYParamIndex m"
  "angleZParamIndex (emit e m) = angleZParamIndex m"
  "bodyAngleXParamIndex (emit e m) = bodyAngleXParamIndex m"
  "breathParamIndex (emit e m) = breathParamIndex m"
  "calls (emit e m) = calls m @ [Emit e]"
  by (simp_all add: emit_def)

lemma motionManager_update_fields [simp]:
  "fst (motionManager_update now m) = fst (motionManagerUpdate m now (paramValues (coreModel m)))"
  "paramValues (coreModel (snd (motionManager_update now m)))
     = snd (motionManagerUpdate m now (paramValues (coreModel m)))"
  "savedParamValues (coreModel (snd (motionManager_update now m))) = savedParamValues (coreModel m)"
  "eyeBlink (snd (motionManager_update now m)) = eyeBlink m"
  "physics (snd (motionManager_update now m)) = physics m"
  "pose (snd (motionManager_update now m)) = pose m"
  "focusController (snd (motionManager_update now m)) = focusController m"
  "eyeballXParamIndex (snd (motionManager_update now m)) = eyeballXParamIndex m"
  "eyeballYParamIndex (snd (motionManager_update now m)) = eyeballYParamIndex m"
  "angleXParamIndex (snd (motionManager_update now m)) = angleXParamIndex m"
  "angleYParamIndex (snd (motionManager_update now m)) = angleYParamIndex m"
  "angleZParamIndex (snd (motionManager_update now m)) = angleZParamIndex m"
  "bodyAngleXParamIndex (snd (motionManager_update now m)) = bodyAngleXParamIndex m"
  "breathParamIndex (snd (motionManager_update now m)) = breathParamIndex m"
  "calls (snd (motionManager_update now m)) = calls m @ [MotionManagerUpdate now]"
  by (simp_all add: motionManager_update_def setParams_def Let_def)

lemma optionalUpdate_fields [simp]:
  "eyeBlink (optionalUpdate c obj arg m) = eyeBlink m"
  "physics (optionalUpdate c obj arg m) = physics m"
  "pose (optionalUpdate c obj arg m) = pose m"
  "focusController (optionalUpdate c obj arg m) = focusController m"
  "eyeballXParamIndex (optionalUpdate c obj arg m) = eyeballXParamIndex m"
  "eyeballYParamIndex (optionalUpdate c obj arg m) = eyeballYParamIndex m"
  "angleXParamIndex (optionalUpdate c obj arg m) = angleXParamIndex m"
  "angleYParamIndex (optionalUpdate c obj arg m) = angleYParamIndex m"
  "angleZParamIndex (optionalUpdate c obj arg m) = angleZParamIndex m"
  "bodyAngleXParamIndex (optionalUpdate c obj arg m) = bodyAngleXParamIndex m"
  "breathParamIndex (optionalUpdate c obj arg m) = breathParamIndex m"
  "savedParamValues (coreModel (optionalUpdate c obj arg m)) = savedParamValues (coreModel m)"
  "calls (optionalUpdate c obj arg m) = calls m @ (if obj = None then [] else [c])"
  by (simp_all add: optionalUpdate_def setParams_def split: option.splits)

lemma update_calls_eq: "calls (update dt now m) = calls m @ frameCalls dt now m"
  by (simp add: update_def frameCalls_def Let_def updateFocus_calls updateNaturalMovements_calls
      focusCalls_def swayCalls_def)

lemma update_restores:
  "paramValues (coreModel (update dt now m)) = snd (motionManagerUpdate m now (paramValues (coreModel m)))"
  by (simp add: update_def Let_def loadParam_def modelUpdate_def saveParam_def)

section \<open>Facts about the motion queue\<close>




section \<open>Facts about \<open>jsonToSettings\<close>\<close>

lemma firstSettings_None:
  "firstSettings runtimes json = Inr None \<longleftrightarrow>
     (\<forall>r \<in> set runtimes. createModelSettings r json = Inr None)"
  by (induction runtimes) (auto split: sum.splits option.splits)

lemma firstSettings_decides:
  "firstSettings runtimes json = v \<and> v \<noteq> Inr None \<longleftrightarrow>
     (\<exists>pre r post. runtimes = pre @ r # post
        \<and> (\<forall>r' \<in> set pre. createModelSettings r' json = Inr None)
        \<and> createModelSettings r json = v \<and> v \<noteq> Inr None)"
proof (induction runtimes)
  case Nil
  then show ?case by auto
next
  case (Cons a runtimes)
  show ?case
  proof (cases "createModelSettings a json = Inr None")
    case True
    have "(\<exists>pre r post. a # runtimes = pre @ r # post
        \<and> (\<forall>r' \<in> set pre. createModelSettings r' json = Inr None)
        \<and> createModelSettings r json = v \<and> v \<noteq> Inr None)
      \<longleftrightarrow> (\<exists>pre r post. runtimes = pre @ r # post
        \<and> (\<forall>r' \<in> set pre. createModelSettings r' json = Inr None)
        \<and> createModelSettings r json = v \<and> v \<noteq> Inr None)" (is "?L \<longleftrightarrow> ?R")
    proof
      assume ?L
      then obtain pre r post where d: "a # runtimes = pre @ r # post"
        "\<forall>r' \<in> set pre. createModelSettings r' json = Inr None"
        "createModelSettings r json = v" "v \<noteq> Inr None" by blast
      with True have "pre \<noteq> []" by (cases pre) auto
      then obtain pre' where "pre = a # pre'" using d(1) by (cases pre) auto
      with d show ?R by auto
    next
      assume ?R
      then obtain pre r post where d: "runtimes = pre @ r # post"
        "\<forall>r' \<in> set pre. createModelSettings r' json = Inr None"
        "createModelSettings r json = v" "v \<noteq> Inr None" by blast
      with True have "a # runtimes = (a # pre) @ r # post
        \<and> (\<forall>r' \<in> set (a # pre). createModelSettings r' json = Inr None)" by simp
      with d(3,4) show ?L by blast
    qed
    with True Cons.IH show ?thesis by simp
  next
    case False
    then have f: "firstSettings (a # runtimes) json = createModelSettings a json"
      by (auto split: sum.splits option.splits)
    have "(\<exists>pre r post. a # runtimes = pre @ r # post
        \<and> (\<forall>r' \<in> set pre. createModelSettings r' json = Inr None)
        \<and> createModelSettings r json = v \<and> v \<noteq> Inr None)
      \<longleftrightarrow> createModelSettings a json = v" (is "?L \<longleftrightarrow> ?R")
    proof
      assume ?L
      then obtain pre r post where d: "a # runtimes = pre @ r # post"
        "\<forall>r' \<in> set pre. createModelSettings r' json = Inr None"
        "createModelSettings r json = v" by blast
      show ?R
      proof (cases pre)
        case Nil
        with d show ?thesis by simp
      next
        case (Cons b pre')
        with d(1,2) have "createModelSettings a json = Inr None" by simp
        with False show ?thesis by simp
      qed
    next
      assume ?R
      with False have "a # runtimes = [] @ a # runtimes
        \<and> (\<forall>r' \<in> set []. createModelSettings r' json = Inr None)
        \<and> createModelSettings a json = v \<and> v \<noteq> Inr None" by simp
      then show ?L by blast
    qed
    with f False show ?thesis by auto
  qed
qed

section \<open>Facts about \<open>setupLive2DModel\<close>\<close>

lemma snoc_eq_split:
  "xs @ [e] = pre @ x # post \<longleftrightarrow>
     (post = [] \<and> xs = pre \<and> e = x) \<or> (\<exists>post'. post = post' @ [e] \<and> xs = pre @ x # post')"
proof (cases post rule: rev_cases)
  case Nil
  then show ?thesis by auto
next
  case (snoc post' y)
  then show ?thesis by auto
qed

lemma names_snoc [simp]: "names (evs @ [(who, e)]) = insert e (names evs)"
  by (auto simp: names_def)

lemma inOrder_snoc:
  "inOrder (evs @ [e]) \<longleftrightarrow>
     inOrder evs
     \<and> (e = (Factory, ''ready'') \<longrightarrow> ''modelLoaded'' \<in> names evs \<and> ''textureLoaded'' \<in> names evs)
     \<and> (e = (Factory, ''load'') \<longrightarrow> (Factory, ''ready'') \<in> set evs)"
  unfolding inOrder_def snoc_eq_split by blast

lemma consistent_others:
  assumes "consistent st"
  shows "consistent (emitOn Others e st)"
  using assms by (auto simp: consistent_def emitOn_def inOrder_snoc)

lemma consistent_ready:
  assumes "consistent st" "textureLoaded st" "modelLoaded st"
  shows "consistent ((emitOn Factory ''ready'' st)\<lparr>readyEventEmitted := True\<rparr>)"
  using assms by (auto simp: consistent_def emitOn_def inOrder_snoc)

lemma consistent_load:
  assumes "consistent st" "readyEventEmitted st"
  shows "consistent ((emitOn Factory ''load'' st)\<lparr>pc := Returned\<rparr>)"
  using assms by (auto simp: consistent_def emitOn_def inOrder_snoc)

lemma consistent_step:
  assumes "consistent st"
  shows "consistent (turn_step st x)"
proof (cases x)
  case (OthersEmit e)
  with assms show ?thesis by (simp add: consistent_others)
next
  case (MiddlewaresSettle r)
  with assms show ?thesis by (simp add: consistent_def)
next
  case ReadyCallback
  with assms show ?thesis by (simp add: consistent_ready)
next
  case Resume
  with assms show ?thesis
    by (auto simp: consistent_load split: position.splits chain.splits) (simp_all add: consistent_def)
qed

lemma consistent_run:
  assumes "consistent st"
  shows "consistent (foldl turn_step st turns)"
  using assms
  by (induction turns arbitrary: st) (simp_all add: consistent_step)

lemma consistent_start: "consistent setupLive2DModel_start"
  by (simp add: consistent_def setupLive2DModel_start_def inOrder_def)

section \<open>Facts about \<open>loadMotion\<close>\<close>

lemma registerDestroy_fields [simp]:
  "motionTasksMap (registerDestroy m fs) = motionTasksMap fs"
  "started (registerDestroy m fs) = started fs"
  "warnings (registerDestroy m fs) = warnings fs"
  "set (destroyListeners (registerDestroy m fs)) = insert m (set (destroyListeners fs))"
  by (auto simp: registerDestroy_def)

lemma registerDestroy_taskAt [simp]: "taskAt (registerDestroy m fs) = taskAt fs"
  by (intro ext) (simp add: taskAt_def taskGroupOf_def tasksOf_def)

lemma taskAt_cong: "motionTasksMap fs' = motionTasksMap fs \<Longrightarrow> taskAt fs' = taskAt fs"
  by (intro ext) (simp add: taskAt_def taskGroupOf_def tasksOf_def)

lemma ensureTasks_fields [simp]:
  "started (ensureTasks m fs) = started fs"
  "warnings (ensureTasks m fs) = warnings fs"
  "destroyListeners (ensureTasks m fs) = destroyListeners fs"
  "taskAt (ensureTasks m fs) m' grp' index' = taskAt fs m' grp' index'"
  by (simp_all add: ensureTasks_def taskAt_def taskGroupOf_def tasksOf_def split: option.splits)

lemma sharedTasks_unchanged [simp]:
  "sharedTasks (registerDestroy m fs) = sharedTasks fs"
  "sharedTasks (ensureTasks m fs) = sharedTasks fs"
  "sharedTasks (createTaskGroup m grp fs) = sharedTasks fs"
  "sharedTasks (putOwn m grp index v fs) = sharedTasks fs"
  "sharedTasks (warn tg fs) = sharedTasks fs"
  "sharedTasks (releaseTasks m fs) = sharedTasks fs"
  by (simp_all add: registerDestroy_def ensureTasks_def createTaskGroup_def putOwn_def warn_def
      releaseTasks_def split: option.splits)

lemma createTaskGroup_fields [simp]:
  "started (createTaskGroup m grp fs) = started fs"
  "warnings (createTaskGroup m grp fs) = warnings fs"
  "destroyListeners (createTaskGroup m grp fs) = destroyListeners fs"
  by (simp_all add: createTaskGroup_def)

lemma createTaskGroup_taskAt:
  "tasksOf fs m grp = None \<Longrightarrow>
   taskAt (createTaskGroup m grp fs) m' grp' index' = taskAt fs m' grp' index'"
  by (simp add: createTaskGroup_def taskAt_def taskGroupOf_def tasksOf_def split: option.splits)

lemma ensureTaskGroup_fields [simp]:
  "started (snd (ensureTaskGroup inherits m grp fs)) = started fs"
  "warnings (snd (ensureTaskGroup inherits m grp fs)) = warnings fs"
  "destroyListeners (snd (ensureTaskGroup inherits m grp fs)) = destroyListeners fs"
  "sharedTasks (snd (ensureTaskGroup inherits m grp fs)) = sharedTasks fs"
  "taskAt (snd (ensureTaskGroup inherits m grp fs)) m' grp' index' = taskAt fs m' grp' index'"
  by (simp_all add: ensureTaskGroup_def lookupTaskGroup_def createTaskGroup_taskAt
      split: option.splits)


lemma putOwn_fields [simp]:
  "started (putOwn m grp index v fs) = started fs"
  "warnings (putOwn m grp index v fs) = warnings fs"
  "destroyListeners (putOwn m grp index v fs) = destroyListeners fs"
  "taskAt (putOwn m grp index v fs) m' grp' index' =
     (if m' = m \<and> grp' = grp \<and> index' = index then v else taskAt fs m' grp' index')"
  by (simp_all add: putOwn_def taskAt_def taskGroupOf_def tasksOf_def split: option.splits)

lemma putShared_fields [simp]:
  "started (putShared sh index v fs) = started fs"
  "warnings (putShared sh index v fs) = warnings fs"
  "destroyListeners (putShared sh index v fs) = destroyListeners fs"
  by (simp_all add: putShared_def)

lemma putShared_taskAt [simp]: "taskAt (putShared sh index v fs) = taskAt fs"
  by (rule taskAt_cong) (simp add: putShared_def)


lemma writeTask_own [simp]: "writeTask m grp OwnArray index t fs = putOwn m grp index (Some t) fs"
  by (simp add: writeTask_def)

lemma deleteTask_fields [simp]:
  "started (deleteTask inherits m grp index fs) = started fs"
  "warnings (deleteTask inherits m grp index fs) = warnings fs"
  "destroyListeners (deleteTask inherits m grp index fs) = destroyListeners fs"
  by (simp_all add: deleteTask_def split: option.splits taskGroup.splits)


lemma warn_fields [simp]:
  "started (warn tg fs) = started fs"
  "warnings (warn tg fs) = warnings fs @ [tg]"
  "destroyListeners (warn tg fs) = destroyListeners fs"
  by (simp_all add: warn_def)

lemma warn_taskAt [simp]: "taskAt (warn tg fs) = taskAt fs"
  by (rule taskAt_cong) (simp add: warn_def)

lemma releaseTasks_fields [simp]:
  "started (releaseTasks m fs) = started fs"
  "warnings (releaseTasks m fs) = warnings fs"
  "destroyListeners (releaseTasks m fs) = destroyListeners fs"
  "taskAt (releaseTasks m fs) m' grp' index' = (if m' = m then None else taskAt fs m' grp' index')"
  by (simp_all add: releaseTasks_def taskAt_def taskGroupOf_def tasksOf_def)

lemma taskAt_started_update [simp]: "taskAt (fs\<lparr>started := xs\<rparr>) = taskAt fs"
  by (rule taskAt_cong) simp









lemma chain_destroyListeners:
  "destroyListeners (snd (catchP (catchCallback managers tk) (thenP (thenCallback inherits managers tk) (outcome, fs))))
     = destroyListeners fs"
  by (simp add: catchP_def thenP_def thenCallback_def catchCallback_def Let_def split: sum.splits)





















lemma newFactory_fields [simp]:
  "started newFactory = []" "warnings newFactory = []" "taskAt newFactory m grp index = None"
  by (simp_all add: newFactory_def taskAt_def taskGroupOf_def tasksOf_def)



section \<open>Claims\<close>

text \<open>
  C6.  For every motion definition, a motion created by
  \<open>Cubism2MotionManager.createMotion\<close> has the fade-in duration \<open>fade_in\<close> when
  that value is strictly greater than zero and \<open>MOTION_FADING_DURATION\<close> otherwise,
  also when \<open>fade_in\<close> is zero or absent; the fade-out duration follows
  \<open>fade_out\<close> in the same way.
\<close>

theorem createMotion_fading:
  assumes "Cubism2MotionManager_createMotion D coreLoadMotion data definition = Inr motion"
  shows "(\<forall>v. fade_in definition = Some v \<and> v > 0 \<longrightarrow> fadeIn motion = v)
       \<and> (fade_in definition = None \<or> (\<exists>v. fade_in definition = Some v \<and> v \<le> 0)
            \<longrightarrow> fadeIn motion = D)
       \<and> (\<forall>v. fade_out definition = Some v \<and> v > 0 \<longrightarrow> fadeOut motion = v)
       \<and> (fade_out definition = None \<or> (\<exists>v. fade_out definition = Some v \<and> v \<le> 0)
            \<longrightarrow> fadeOut motion = D)"
  using assms
  by (auto simp: Cubism2MotionManager_createMotion_def positive_def Let_def split: sum.splits)

theorem createMotion_fading_witness:
  "fadeIn (projr (Cubism2MotionManager_createMotion 500 (\<lambda>d. Inr \<lparr>motionData = d, fadeIn = 0, fadeOut = 0,
        onFinishHandler = (None :: unit option)\<rparr>) (7::nat)
        \<lparr>motion_file = ''idle.mtn'', motion_sound = None, fade_in = Some 2000, fade_out = Some 0\<rparr>)) = 2000
   \<and> fadeOut (projr (Cubism2MotionManager_createMotion 500 (\<lambda>d. Inr \<lparr>motionData = d, fadeIn = 0, fadeOut = 0,
        onFinishHandler = (None :: unit option)\<rparr>) (7::nat)
        \<lparr>motion_file = ''idle.mtn'', motion_sound = None, fade_in = Some 2000, fade_out = Some 0\<rparr>)) = 500"
  using createMotion_fading [of 500
      "\<lambda>d. Inr \<lparr>motionData = d, fadeIn = 0, fadeOut = 0, onFinishHandler = (None :: unit option)\<rparr>"
      "7::nat"
      "\<lparr>motion_file = ''idle.mtn'', motion_sound = None, fade_in = Some 2000, fade_out = Some 0\<rparr>"
      "projr (Cubism2MotionManager_createMotion 500 (\<lambda>d. Inr \<lparr>motionData = d, fadeIn = 0, fadeOut = 0,
        onFinishHandler = (None :: unit option)\<rparr>) (7::nat)
        \<lparr>motion_file = ''idle.mtn'', motion_sound = None, fade_in = Some 2000, fade_out = Some 0\<rparr>)"]
  by (simp add: Cubism2MotionManager_createMotion_def positive_def)

text \<open>
  C7.  With focus controller values \<open>(x, y)\<close>, \<open>updateFocus\<close> makes six
  calls of \<open>addToParamFloat\<close> on the core model and no other call; with pairwise
  different parameter indices it adds \<open>x\<close> to the eyeball-X parameter, \<open>y\<close> to eyeball-Y,
  \<open>30 * x\<close> to angle-X, \<open>30 * y\<close> to angle-Y, \<open>- 30 * x * y\<close> to angle-Z and
  \<open>10 * x\<close> to body-angle-X; every other parameter keeps its value.
\<close>

theorem updateFocus_adds:
  assumes "distinct [eyeballXParamIndex m, eyeballYParamIndex m, angleXParamIndex m,
                     angleYParamIndex m, angleZParamIndex m, bodyAngleXParamIndex m]"
    and "x = focus_x (focusController m)" and "y = focus_y (focusController m)"
    and "p = paramValues (coreModel m)" and "p' = paramValues (coreModel (updateFocus m))"
  shows "calls (updateFocus m) = calls m @
           [Core (AddToParamFloat (eyeballXParamIndex m) x),
            Core (AddToParamFloat (eyeballYParamIndex m) y),
            Core (AddToParamFloat (angleXParamIndex m) (x * 30)),
            Core (AddToParamFloat (angleYParamIndex m) (y * 30)),
            Core (AddToParamFloat (angleZParamIndex m) (x * y * - 30)),
            Core (AddToParamFloat (bodyAngleXParamIndex m) (x * 10))]
       \<and> p' (eyeballXParamIndex m) = p (eyeballXParamIndex m) + x
       \<and> p' (eyeballYParamIndex m) = p (eyeballYParamIndex m) + y
       \<and> p' (angleXParamIndex m) = p (angleXParamIndex m) + 30 * x
       \<and> p' (angleYParamIndex m) = p (angleYParamIndex m) + 30 * y
       \<and> p' (angleZParamIndex m) = p (angleZParamIndex m) + - 30 * x * y
       \<and> p' (bodyAngleXParamIndex m) = p (bodyAngleXParamIndex m) + 10 * x
       \<and> (\<forall>j. j \<notin> {eyeballXParamIndex m, eyeballYParamIndex m, angleXParamIndex m,
                    angleYParamIndex m, angleZParamIndex m, bodyAngleXParamIndex m}
              \<longrightarrow> p' j = p j)"
proof -
  have made: "calls (updateFocus m) = calls m @
           [Core (AddToParamFloat (eyeballXParamIndex m) x),
            Core (AddToParamFloat (eyeballYParamIndex m) y),
            Core (AddToParamFloat (angleXParamIndex m) (x * 30)),
            Core (AddToParamFloat (angleYParamIndex m) (y * 30)),
            Core (AddToParamFloat (angleZParamIndex m) (x * y * - 30)),
            Core (AddToParamFloat (bodyAngleXParamIndex m) (x * 10))]"
    unfolding assms(2,3) by (simp add: updateFocus_calls focusCalls_def Let_def)
  have vals: "p' (eyeballXParamIndex m) = p (eyeballXParamIndex m) + x
       \<and> p' (eyeballYParamIndex m) = p (eyeballYParamIndex m) + y
       \<and> p' (angleXParamIndex m) = p (angleXParamIndex m) + 30 * x
       \<and> p' (angleYParamIndex m) = p (angleYParamIndex m) + 30 * y
       \<and> p' (angleZParamIndex m) = p (angleZParamIndex m) + - 30 * x * y
       \<and> p' (bodyAngleXParamIndex m) = p (bodyAngleXParamIndex m) + 10 * x
       \<and> (\<forall>j. j \<notin> {eyeballXParamIndex m, eyeballYParamIndex m, angleXParamIndex m,
                    angleYParamIndex m, angleZParamIndex m, bodyAngleXParamIndex m}
              \<longrightarrow> p' j = p j)"
    unfolding assms(2-5) updateFocus_paramValues using distinct6 [OF assms(1)] by simp
  from made vals show ?thesis by (rule conjI)
qed

theorem updateFocus_adds_witness:
  "distinct [eyeballXParamIndex exampleModel, eyeballYParamIndex exampleModel,
             angleXParamIndex exampleModel, angleYParamIndex exampleModel,
             angleZParamIndex exampleModel, bodyAngleXParamIndex exampleModel]
   \<and> paramValues (coreModel (updateFocus exampleModel)) 0 = 1 / 2
   \<and> paramValues (coreModel (updateFocus exampleModel)) 1 = - 1
   \<and> paramValues (coreModel (updateFocus exampleModel)) 2 = 15
   \<and> paramValues (coreModel (updateFocus exampleModel)) 3 = - 30
   \<and> paramValues (coreModel (updateFocus exampleModel)) 4 = 15
   \<and> paramValues (coreModel (updateFocus exampleModel)) 5 = 5
   \<and> paramValues (coreModel (updateFocus exampleModel)) 6 = 0"
proof -
  have d: "distinct [eyeballXParamIndex exampleModel, eyeballYParamIndex exampleModel,
             angleXParamIndex exampleModel, angleYParamIndex exampleModel,
             angleZParamIndex exampleModel, bodyAngleXParamIndex exampleModel]"
    by (simp add: exampleModel_def)
  show ?thesis
    using d updateFocus_adds [OF d refl refl refl refl]
    by (simp add: exampleModel_def)
qed

text \<open>
  C10.  For every timestamp \<open>now\<close>, \<open>updateNaturalMovements\<close> calls
  \<open>addToParamFloat\<close> for the four angle parameters and \<open>setParamFloat\<close> for
  the breath parameter, and so leaves the breath parameter at
  \<open>0.5 + 0.5 * sin (((now / 1000) * 2 * pi) / 3.2345)\<close>, whatever it was before, and
  this value lies in \<open>[0, 1]\<close>; the angle-X, angle-Y, angle-Z and
  body-angle-X parameters (the five indices pairwise different) each keep their value plus
  a sinusoidal offset.
\<close>

theorem updateNaturalMovements_breath:
  "calls (updateNaturalMovements dt now m) = calls m @
     [Core (AddToParamFloat (angleXParamIndex m) (15 * sin (((now / 1000) * 2 * pi) / 6.5345) * 0.5)),
      Core (AddToParamFloat (angleYParamIndex m) (8 * sin (((now / 1000) * 2 * pi) / 3.5345) * 0.5)),
      Core (AddToParamFloat (angleZParamIndex m) (10 * sin (((now / 1000) * 2 * pi) / 5.5345) * 0.5)),
      Core (AddToParamFloat (bodyAngleXParamIndex m) (4 * sin (((now / 1000) * 2 * pi) / 15.5345) * 0.5)),
      Core (SetParamFloat (breathParamIndex m) (0.5 + 0.5 * sin (((now / 1000) * 2 * pi) / 3.2345)))]
   \<and> paramValues (coreModel (updateNaturalMovements dt now m)) (breathParamIndex m)
       = 0.5 + 0.5 * sin (((now / 1000) * 2 * pi) / 3.2345)
   \<and> 0 \<le> paramValues (coreModel (updateNaturalMovements dt now m)) (breathParamIndex m)
   \<and> paramValues (coreModel (updateNaturalMovements dt now m)) (breathParamIndex m) \<le> 1
   \<and> (distinct [angleXParamIndex m, angleYParamIndex m, angleZParamIndex m,
                 bodyAngleXParamIndex m, breathParamIndex m] \<longrightarrow>
        paramValues (coreModel (updateNaturalMovements dt now m)) (angleXParamIndex m)
          = paramValues (coreModel m) (angleXParamIndex m)
            + 15 * sin (((now / 1000) * 2 * pi) / 6.5345) * 0.5
      \<and> paramValues (coreModel (updateNaturalMovements dt now m)) (angleYParamIndex m)
          = paramValues (coreModel m) (angleYParamIndex m)
            + 8 * sin (((now / 1000) * 2 * pi) / 3.5345) * 0.5
      \<and> paramValues (coreModel (updateNaturalMovements dt now m)) (angleZParamIndex m)
          = paramValues (coreModel m) (angleZParamIndex m)
            + 10 * sin (((now / 1000) * 2 * pi) / 5.5345) * 0.5
      \<and> paramValues (coreModel (updateNaturalMovements dt now m)) (bodyAngleXParamIndex m)
          = paramValues (coreModel m) (bodyAngleXParamIndex m)
            + 4 * sin (((now / 1000) * 2 * pi) / 15.5345) * 0.5)"
proof -
  have made: "calls (updateNaturalMovements dt now m) = calls m @
     [Core (AddToParamFloat (angleXParamIndex m) (15 * sin (((now / 1000) * 2 * pi) / 6.5345) * 0.5)),
      Core (AddToParamFloat (angleYParamIndex m) (8 * sin (((now / 1000) * 2 * pi) / 3.5345) * 0.5)),
      Core (AddToParamFloat (angleZParamIndex m) (10 * sin (((now / 1000) * 2 * pi) / 5.5345) * 0.5)),
      Core (AddToParamFloat (bodyAngleXParamIndex m) (4 * sin (((now / 1000) * 2 * pi) / 15.5345) * 0.5)),
      Core (SetParamFloat (breathParamIndex m) (0.5 + 0.5 * sin (((now / 1000) * 2 * pi) / 3.2345)))]"
    by (simp add: updateNaturalMovements_calls swayCalls_def Let_def)
  have b: "paramValues (coreModel (updateNaturalMovements dt now m)) (breathParamIndex m)
       = 0.5 + 0.5 * sin (((now / 1000) * 2 * pi) / 3.2345)"
    by (simp only: updateNaturalMovements_paramValues refl if_True)
  have r: "0 \<le> paramValues (coreModel (updateNaturalMovements dt now m)) (breathParamIndex m)
     \<and> paramValues (coreModel (updateNaturalMovements dt now m)) (breathParamIndex m) \<le> 1"
    unfolding b by (rule breath_range)
  have a: "distinct [angleXParamIndex m, angleYParamIndex m, angleZParamIndex m,
                 bodyAngleXParamIndex m, breathParamIndex m] \<longrightarrow>
        paramValues (coreModel (updateNaturalMovements dt now m)) (angleXParamIndex m)
          = paramValues (coreModel m) (angleXParamIndex m)
            + 15 * sin (((now / 1000) * 2 * pi) / 6.5345) * 0.5
      \<and> paramValues (coreModel (updateNaturalMovements dt now m)) (angleYParamIndex m)
          = paramValues (coreModel m) (angleYParamIndex m)
            + 8 * sin (((now / 1000) * 2 * pi) / 3.5345) * 0.5
      \<and> paramValues (coreModel (updateNaturalMovements dt now m)) (angleZParamIndex m)
          = paramValues (coreModel m) (angleZParamIndex m)
            + 10 * sin (((now / 1000) * 2 * pi) / 5.5345) * 0.5
      \<and> paramValues (coreModel (updateNaturalMovements dt now m)) (bodyAngleXParamIndex m)
          = paramValues (coreModel m) (bodyAngleXParamIndex m)
            + 4 * sin (((now / 1000) * 2 * pi) / 15.5345) * 0.5"
    unfolding updateNaturalMovements_paramValues by auto
  from made b r a show ?thesis by blast
qed

theorem updateNaturalMovements_breath_witness:
  "distinct [angleXParamIndex exampleModel, angleYParamIndex exampleModel,
             angleZParamIndex exampleModel, bodyAngleXParamIndex exampleModel,
             breathParamIndex exampleModel]
   \<and> paramValues (coreModel (updateNaturalMovements 16 0 exampleModel)) 6 = 1 / 2
   \<and> paramValues (coreModel (updateNaturalMovements 16 0 exampleModel)) 2 = 0"
proof -
  have d: "distinct [angleXParamIndex exampleModel, angleYParamIndex exampleModel,
             angleZParamIndex exampleModel, bodyAngleXParamIndex exampleModel,
             breathParamIndex exampleModel]"
    by (simp add: exampleModel_def)
  show ?thesis
    using d updateNaturalMovements_breath [of 16 0 exampleModel]
    by (simp add: exampleModel_def)
qed

text \<open>
  C1 (as amended).  Every call of \<open>update dt now\<close> makes these calls, in this order: the
  base class's update, the motion manager's update (between the events
  \<open>beforeMotionUpdate\<close> and \<open>afterMotionUpdate\<close>), \<open>saveParam\<close>, the eye-blink
  update if and only if the motion update has reported no change and an eye-blink
  controller is present, the six focus additions, the idle-sway calls, the physics update
  when physics is present, the pose update when pose is present, the event
  \<open>beforeModelUpdate\<close>, the core model's update, and \<open>loadParam\<close>; afterwards the
  parameter values are again those the motion update has left.
\<close>

theorem update_pipeline:
  "calls (update dt now m) =
     calls m
     @ [SuperUpdate dt now, Emit ''beforeMotionUpdate'', MotionManagerUpdate now,
        Emit ''afterMotionUpdate'', Core SaveParam]
     @ (if \<not> fst (motionManagerUpdate m now (paramValues (coreModel m))) \<and> eyeBlink m \<noteq> None
        then [EyeBlinkUpdate dt] else [])
     @ focusCalls (baseUpdate dt now m)
     @ swayCalls now m
     @ (if physics m \<noteq> None then [PhysicsUpdate now] else [])
     @ (if pose m \<noteq> None then [PoseUpdate dt] else [])
     @ [Emit ''beforeModelUpdate'', Core ModelUpdate, Core LoadParam]
   \<and> paramValues (coreModel (update dt now m))
       = snd (motionManagerUpdate m now (paramValues (coreModel m)))"
  using update_calls_eq [of dt now m] update_restores [of dt now m]
  by (simp add: frameCalls_def)

theorem update_pipeline_witness:
  "calls (update 16 0 exampleModel) =
     [SuperUpdate 16 0, Emit ''beforeMotionUpdate'', MotionManagerUpdate 0,
      Emit ''afterMotionUpdate'', Core SaveParam, EyeBlinkUpdate 16,
      Core (AddToParamFloat 0 (1 / 2)), Core (AddToParamFloat 1 (- 1)),
      Core (AddToParamFloat 2 15), Core (AddToParamFloat 3 (- 30)),
      Core (AddToParamFloat 4 15), Core (AddToParamFloat 5 5),
      Core (AddToParamFloat 2 0), Core (AddToParamFloat 3 0),
      Core (AddToParamFloat 4 0), Core (AddToParamFloat 5 0),
      Core (SetParamFloat 6 (1 / 2)),
      Emit ''beforeModelUpdate'', Core ModelUpdate, Core LoadParam]
   \<and> paramValues (coreModel (update 16 0 exampleModel)) = (\<lambda>_. 0)"
  using update_pipeline [of 16 0 exampleModel]
  by (simp add: exampleModel_def focusCalls_def swayCalls_def baseUpdate_def)

text \<open>
  C1 as stated fails for a model whose \<open>eyeBlink\<close> field is undefined: the motion update
  reports no change, and the calls of the frame contain no eye-blink update.
\<close>

theorem update_eyeBlink_counterexample:
  "\<not> fst (motionManagerUpdate (exampleModel\<lparr>eyeBlink := None\<rparr>) 0
          (paramValues (coreModel (exampleModel\<lparr>eyeBlink := None\<rparr>))))
   \<and> calls (update 16 0 (exampleModel\<lparr>eyeBlink := None\<rparr>)) =
     [SuperUpdate 16 0, Emit ''beforeMotionUpdate'', MotionManagerUpdate 0,
      Emit ''afterMotionUpdate'', Core SaveParam,
      Core (AddToParamFloat 0 (1 / 2)), Core (AddToParamFloat 1 (- 1)),
      Core (AddToParamFloat 2 15), Core (AddToParamFloat 3 (- 30)),
      Core (AddToParamFloat 4 15), Core (AddToParamFloat 5 5),
      Core (AddToParamFloat 2 0), Core (AddToParamFloat 3 0),
      Core (AddToParamFloat 4 0), Core (AddToParamFloat 5 0),
      Core (SetParamFloat 6 (1 / 2)),
      Emit ''beforeModelUpdate'', Core ModelUpdate, Core LoadParam]"
  by (simp add: update_calls_eq frameCalls_def exampleModel_def focusCalls_def swayCalls_def
      baseUpdate_def Let_def)



text \<open>
  C9.  For a string id for which \<open>getDrawDataIndex\<close> returns \<open>-1\<close>,
  \<open>getDrawableVertices\<close> throws a \<open>TypeError\<close>; for an argument that resolves to a
  drawable (an id with an index other than \<open>-1\<close>, or a number), it returns a newly
  allocated array with the numbers of the core's buffer, at an address that is not the
  buffer's and was not in use, and leaves every existing array as it was.
\<close>

theorem getDrawableVertices_result:
  "(getDrawDataIndex s = - 1 \<longrightarrow>
      getDrawableVertices getDrawDataIndex getTransformedPoints (Str s) h
        = Inl (TypeError ''Unable to find drawable ID: -1''))
   \<and> (wellFormed h \<and> getTransformedPoints i = Some a \<and> cells h a = Some xs
        \<and> (drawIndex = Num i \<or> (drawIndex = Str s \<and> getDrawDataIndex s = i \<and> i \<noteq> - 1)) \<longrightarrow>
       (\<exists>a' h'. getDrawableVertices getDrawDataIndex getTransformedPoints drawIndex h = Inr (a', h')
          \<and> a' \<noteq> a \<and> cells h a' = None \<and> cells h' a' = Some xs
          \<and> (\<forall>b. b \<noteq> a' \<longrightarrow> cells h' b = cells h b)))"
proof -
  have fresh: "wellFormed h \<Longrightarrow> cells h a = Some xs \<Longrightarrow> nextFree h \<noteq> a \<and> cells h (nextFree h) = None"
    unfolding wellFormed_def by (metis less_irrefl option.distinct(1))
  show ?thesis
    using fresh by (auto simp: getDrawableVertices_def slice_def Let_def)
qed

theorem getDrawableVertices_result_witness:
  "getDrawableVertices (\<lambda>s. if s = ''D_HEAD'' then 3 else - 1) (\<lambda>i. if i = 3 then Some 0 else None)
      (Str ''D_HAIR'') \<lparr>cells = (\<lambda>_. None)(0 := Some [1, 2]), nextFree = 1\<rparr>
     = Inl (TypeError ''Unable to find drawable ID: -1'')
   \<and> wellFormed \<lparr>cells = (\<lambda>_. None)(0 := Some [1, 2]), nextFree = 1\<rparr>
   \<and> getDrawableVertices (\<lambda>s. if s = ''D_HEAD'' then 3 else - 1) (\<lambda>i. if i = 3 then Some 0 else None)
      (Str ''D_HEAD'') \<lparr>cells = (\<lambda>_. None)(0 := Some [1, 2]), nextFree = 1\<rparr>
     = Inr (1, \<lparr>cells = (\<lambda>_. None)(0 := Some [1, 2], 1 := Some [1, 2]), nextFree = 2\<rparr>)"
  using getDrawableVertices_result [of "\<lambda>s. if s = ''D_HEAD'' then 3 else - 1" "''D_HAIR''"
      "\<lambda>i. if i = 3 then Some 0 else None" "\<lparr>cells = (\<lambda>_. None)(0 := Some [1, 2]), nextFree = 1\<rparr>"
      3 0 "[1, 2]" "Str ''D_HEAD''"]
  by (simp add: getDrawableVertices_def slice_def wellFormed_def)

text \<open>
  C4 (as amended).  For a source that is an instance of \<open>ModelSettings\<close>,
  \<open>jsonToSettings\<close> records it as the settings and its result is that of
  \<open>next\<close>.  For any other object it asks the runtimes in order.  When the first
  runtime that does not return \<open>undefined\<close> returns settings and no listener of
  \<open>settingsLoaded\<close> throws, it records these settings, emits
  \<open>settingsLoaded\<close>, and its result is that of \<open>next\<close>.  When that runtime
  throws, or a listener of \<open>settingsLoaded\<close> throws, it rejects with the error
  thrown, whatever the rest of the chain is.  And where no runtime throws on the source and
  no listener throws, it rejects with \<open>TypeError('Unknown settings format.')\<close>,
  whatever the rest of the chain is, exactly when the source is neither an instance of
  \<open>ModelSettings\<close> nor an object for which some registered runtime's
  \<open>createModelSettings\<close> returns settings.
\<close>

theorem jsonToSettings_outcome:
  "(\<forall>s. source context = SettingsInstance s \<longrightarrow>
       jsonToSettings runtimes context nxt = nxt (context\<lparr>settings := Some s\<rparr>))
   \<and> (\<forall>json pre r post s. source context = JsObject json \<and> runtimes = pre @ r # post
         \<and> (\<forall>r' \<in> set pre. createModelSettings r' json = Inr None)
         \<and> createModelSettings r json = Inr (Some s)
         \<and> listeners context ''settingsLoaded'' s = None \<longrightarrow>
       jsonToSettings runtimes context nxt
         = nxt (context\<lparr>settings := Some s,
                        emitted := emitted context @ [(''settingsLoaded'', s)]\<rparr>))
   \<and> (\<forall>json pre r post e. source context = JsObject json \<and> runtimes = pre @ r # post
         \<and> (\<forall>r' \<in> set pre. createModelSettings r' json = Inr None)
         \<and> (createModelSettings r json = Inl e
              \<or> (\<exists>s. createModelSettings r json = Inr (Some s)
                    \<and> listeners context ''settingsLoaded'' s = Some e)) \<longrightarrow>
       (\<forall>next :: ('j, 's) Live2DFactoryContext \<Rightarrow> error + 'r.
          jsonToSettings runtimes context next = Inl e))
   \<and> ((\<forall>json r. source context = JsObject json \<and> r \<in> set runtimes \<longrightarrow>
          (\<exists>v. createModelSettings r json = Inr v))
        \<and> (\<forall>s. listeners context ''settingsLoaded'' s = None) \<longrightarrow>
       ((\<forall>next :: ('j, 's) Live2DFactoryContext \<Rightarrow> error + 'r.
           jsonToSettings runtimes context next = Inl (TypeError ''Unknown settings format.''))
        \<longleftrightarrow> \<not> (\<exists>s. source context = SettingsInstance s)
            \<and> \<not> (\<exists>json. source context = JsObject json
                   \<and> (\<exists>r \<in> set runtimes. \<exists>s. createModelSettings r json = Inr (Some s)))))"
    (is "?inst \<and> ?found \<and> ?threw \<and> (?quiet \<longrightarrow> (?all \<longleftrightarrow> ?unknown))")
proof -
  have inst: ?inst
    by (simp add: jsonToSettings_def)
  have first: "firstSettings runtimes json = v"
    if "runtimes = pre @ r # post" "\<forall>r' \<in> set pre. createModelSettings r' json = Inr None"
       "createModelSettings r json = v" "v \<noteq> Inr None" for json pre r post v
    using firstSettings_decides [of runtimes json v] that by blast
  have found: ?found
  proof (intro allI impI)
    fix json pre r post s
    assume a: "source context = JsObject json \<and> runtimes = pre @ r # post
         \<and> (\<forall>r' \<in> set pre. createModelSettings r' json = Inr None)
         \<and> createModelSettings r json = Inr (Some s)
         \<and> listeners context ''settingsLoaded'' s = None"
    then have "firstSettings runtimes json = Inr (Some s)"
      by (intro first [of pre r post]) auto
    with a show "jsonToSettings runtimes context nxt
         = nxt (context\<lparr>settings := Some s,
                        emitted := emitted context @ [(''settingsLoaded'', s)]\<rparr>)"
      by (simp add: jsonToSettings_def live2dModel_emit_def)
  qed
  have threw: ?threw
  proof (intro allI impI)
    fix json pre r post e and nx :: "('j, 's) Live2DFactoryContext \<Rightarrow> error + 'r"
    assume a: "source context = JsObject json \<and> runtimes = pre @ r # post
         \<and> (\<forall>r' \<in> set pre. createModelSettings r' json = Inr None)
         \<and> (createModelSettings r json = Inl e
              \<or> (\<exists>s. createModelSettings r json = Inr (Some s)
                    \<and> listeners context ''settingsLoaded'' s = Some e))"
    then consider (runtime) "createModelSettings r json = Inl e"
      | (listener) s where "createModelSettings r json = Inr (Some s)"
          "listeners context ''settingsLoaded'' s = Some e"
      by blast
    then show "jsonToSettings runtimes context nx = Inl e"
    proof cases
      case runtime
      with a have "firstSettings runtimes json = Inl e"
        by (intro first [of pre r post]) auto
      with a show ?thesis
        by (simp add: jsonToSettings_def)
    next
      case listener
      with a have "firstSettings runtimes json = Inr (Some s)"
        by (intro first [of pre r post]) auto
      with a listener(2) show ?thesis
        by (simp add: jsonToSettings_def live2dModel_emit_def)
    qed
  qed
  have iff: "?all \<longleftrightarrow> ?unknown" if q: ?quiet
  proof
    assume all: ?all
    let ?k = "\<lambda>_ :: ('j, 's) Live2DFactoryContext. Inr undefined :: error + 'r"
    from all have k: "jsonToSettings runtimes context ?k = Inl (TypeError ''Unknown settings format.'')"
      by blast
    show ?unknown
    proof (cases "source context")
      case (SettingsInstance s)
      with k show ?thesis by (simp add: jsonToSettings_def)
    next
      case (JsObject json)
      with k have "firstSettings runtimes json = Inr None"
      proof (cases "firstSettings runtimes json")
        case (Inl e)
        then have "Inl e \<noteq> (Inr None :: error + 's option)" by simp
        with Inl firstSettings_decides [of runtimes json "Inl e"]
        obtain pre r post where "runtimes = pre @ r # post" "createModelSettings r json = Inl e"
          by blast
        then have "r \<in> set runtimes" "createModelSettings r json = Inl e" by simp_all
        with q JsObject show ?thesis by auto
      next
        case (Inr v)
        with k JsObject q show ?thesis
          by (cases v) (simp_all add: jsonToSettings_def live2dModel_emit_def)
      qed
      with JsObject show ?thesis
        by (auto simp: firstSettings_None)
    qed simp_all
  next
    assume u: ?unknown
    show ?all
    proof (intro allI)
      fix nx :: "('j, 's) Live2DFactoryContext \<Rightarrow> error + 'r"
      show "jsonToSettings runtimes context nx = Inl (TypeError ''Unknown settings format.'')"
      proof (cases "source context")
        case (JsObject json)
        have "createModelSettings r json = Inr None" if "r \<in> set runtimes" for r
        proof -
          from q JsObject that obtain v where v: "createModelSettings r json = Inr v" by blast
          with u JsObject that show ?thesis by (cases v) auto
        qed
        then have "firstSettings runtimes json = Inr None"
          by (simp add: firstSettings_None)
        with JsObject show ?thesis by (simp add: jsonToSettings_def)
      next
        case (SettingsInstance s)
        with u show ?thesis by simp
      qed (simp_all add: jsonToSettings_def)
    qed
  qed
  from inst found threw iff show ?thesis by blast
qed

theorem jsonToSettings_outcome_witness:
  "jsonToSettings exampleRuntimes (exampleContext (SettingsInstance ''given settings''))
       (\<lambda>c. Inr (settings c, emitted c))
     = (Inr (Some ''given settings'', [])
          :: error + (string option \<times> (string \<times> string) list))
   \<and> jsonToSettings exampleRuntimes (exampleContext (JsObject 2)) (\<lambda>c. Inr (settings c, emitted c))
     = (Inr (Some ''cubism2 settings'', [(''settingsLoaded'', ''cubism2 settings'')])
          :: error + (string option \<times> (string \<times> string) list))
   \<and> jsonToSettings exampleRuntimes (exampleContext (JsObject 4)) (\<lambda>c. Inr (settings c, emitted c))
     = (Inl (Error ''listener failed'')
          :: error + (string option \<times> (string \<times> string) list))
   \<and> createModelSettings (exampleRuntimes ! 0) 7 = Inr None
   \<and> createModelSettings (exampleRuntimes ! 1) 7 = Inr None
   \<and> (\<forall>s. listeners ((exampleContext (JsObject 7))\<lparr>listeners := \<lambda>event s. None\<rparr>)
             ''settingsLoaded'' s = None)
   \<and> jsonToSettings exampleRuntimes ((exampleContext (JsObject 7))\<lparr>listeners := \<lambda>event s. None\<rparr>)
       (\<lambda>c. Inr (settings c, emitted c))
     = (Inl (TypeError ''Unknown settings format.'')
          :: error + (string option \<times> (string \<times> string) list))"
  using jsonToSettings_outcome [of "exampleContext (SettingsInstance ''given settings'')"
      exampleRuntimes
      "\<lambda>c. Inr (settings c, emitted c) :: error + (string option \<times> (string \<times> string) list)"]
    jsonToSettings_outcome [of "exampleContext (JsObject 2)" exampleRuntimes
      "\<lambda>c. Inr (settings c, emitted c) :: error + (string option \<times> (string \<times> string) list)"]
    jsonToSettings_outcome [of "exampleContext (JsObject 4)" exampleRuntimes
      "\<lambda>c. Inr (settings c, emitted c) :: error + (string option \<times> (string \<times> string) list)"]
    jsonToSettings_outcome [of "(exampleContext (JsObject 7))\<lparr>listeners := \<lambda>event s. None\<rparr>"
      exampleRuntimes
      "\<lambda>c. Inr (settings c, emitted c) :: error + (string option \<times> (string \<times> string) list)"]
  by (simp add: exampleRuntimes_def exampleContext_def jsonToSettings_def live2dModel_emit_def)

text \<open>
  C4 as stated fails where a runtime throws: for the object \<open>0\<close> the second runtime
  returns settings and no listener throws on them, yet the middleware rejects with the
  error of the first runtime; it neither records settings nor calls \<open>next\<close>, and the
  error is not \<open>TypeError('Unknown settings format.')\<close>.
\<close>

theorem jsonToSettings_throwing_runtime_counterexample:
  "createModelSettings (exampleRuntimes ! 1) 0 = Inr (Some ''cubism2 settings'')
   \<and> listeners (exampleContext (JsObject 0)) ''settingsLoaded'' ''cubism2 settings'' = None
   \<and> jsonToSettings exampleRuntimes (exampleContext (JsObject 0)) (\<lambda>c. Inr (settings c, emitted c))
     = (Inl (TypeError ''Cannot read properties of null'')
          :: error + (string option \<times> (string \<times> string) list))"
  by (simp add: exampleRuntimes_def exampleContext_def jsonToSettings_def)

text \<open>
  C2.  In every run of \<open>setupLive2DModel\<close>, whatever the middlewares and other code
  do and in whatever order the turns come: when the function emits \<open>ready\<close>, both
  \<open>modelLoaded\<close> and \<open>textureLoaded\<close> have been emitted on the model before;
  when it emits \<open>load\<close>, it has emitted \<open>ready\<close> before; and a run in which the
  function returns has emitted both.
\<close>

theorem setupLive2DModel_order:
  assumes "evs = emittedEvents (foldl turn_step setupLive2DModel_start turns)"
  shows "(\<forall>pre post. evs = pre @ (Factory, ''ready'') # post \<longrightarrow>
            ''modelLoaded'' \<in> snd ` set pre \<and> ''textureLoaded'' \<in> snd ` set pre)
       \<and> (\<forall>pre post. evs = pre @ (Factory, ''load'') # post \<longrightarrow> (Factory, ''ready'') \<in> set pre)
       \<and> (pc (foldl turn_step setupLive2DModel_start turns) = Returned \<longrightarrow>
            (Factory, ''load'') \<in> set evs \<and> (Factory, ''ready'') \<in> set evs)"
proof -
  have c: "consistent (foldl turn_step setupLive2DModel_start turns)"
    using consistent_start by (rule consistent_run)
  then have o: "inOrder evs"
    and l: "pc (foldl turn_step setupLive2DModel_start turns) = Returned
              \<longrightarrow> (Factory, ''load'') \<in> set evs"
    unfolding assms by (simp_all add: consistent_def)
  have r: "(Factory, ''ready'') \<in> set evs" if "(Factory, ''load'') \<in> set evs"
  proof -
    from that obtain pre post where e: "evs = pre @ (Factory, ''load'') # post"
      by (auto simp: in_set_conv_decomp)
    with o have "(Factory, ''ready'') \<in> set pre" by (simp add: inOrder_def)
    with e show ?thesis by simp
  qed
  from o l r show ?thesis
    unfolding inOrder_def names_def by blast
qed

theorem setupLive2DModel_order_witness:
  "pc (foldl turn_step setupLive2DModel_start [OthersEmit ''settingsLoaded'', OthersEmit ''modelLoaded'',
       OthersEmit ''textureLoaded'', ReadyCallback, MiddlewaresSettle None, Resume, Resume]) = Returned
   \<and> emittedEvents (foldl turn_step setupLive2DModel_start [OthersEmit ''settingsLoaded'',
       OthersEmit ''modelLoaded'', OthersEmit ''textureLoaded'', ReadyCallback,
       MiddlewaresSettle None, Resume, Resume])
     = [(Others, ''settingsLoaded''), (Others, ''modelLoaded''), (Others, ''textureLoaded''),
        (Factory, ''ready''), (Factory, ''load'')]"
  using setupLive2DModel_order [OF refl, of "[OthersEmit ''settingsLoaded'',
       OthersEmit ''modelLoaded'', OthersEmit ''textureLoaded'', ReadyCallback,
       MiddlewaresSettle None, Resume, Resume]"]
  by (simp add: setupLive2DModel_start_def emitOn_def)






end
